theory Spec2Isabelle
  imports Main
begin

section \<open>Python values and exceptions\<close>

text \<open>
  Dynamic values that cross the HTTP boundary (request payloads, response bodies, JWT
  claims, marshmallow error messages) are JSON-like Python objects. A dict keeps its
  insertion order, so an object is an association list.
\<close>

datatype json =
    JNull
  | JBool bool
  | JNum int
  | JStr string
  | JList "json list"
  | JObj "(string \<times> json) list"

text \<open>
  Exceptions are values. \<open>ValidationError\<close> carries marshmallow's \<open>messages\<close>;
  \<open>KeyError\<close> the missing key; \<open>RecursionError\<close> is what CPython raises when the
  call stack exceeds the recursion limit; \<open>OtherError\<close> stands for every other
  exception class (including those outside \<open>Exception\<close>), by name.
\<close>

datatype exn =
    ValidationError json
  | KeyError string
  | RecursionError
  | OtherError string

section \<open>src/mixins/resource.py: ResourceMixin\<close>

subsection \<open>sort_by\<close>

text \<open>
  \<open>cls.__table__.columns\<close> is not declared in the mixin: every model class brings its
  own table. The column keys are a parameter \<open>columns\<close>; \<open>field not in columns\<close> is
  membership of the key.
\<close>

definition sort_by :: "string list \<Rightarrow> string \<Rightarrow> string \<Rightarrow> string \<times> string" where
  "sort_by columns field direction =
     (let field = (if field \<notin> set columns then ''created_at'' else field);
          direction = (if direction \<notin> set [''asc'', ''desc''] then ''asc'' else direction)
      in (field, direction))"

subsection \<open>get_bulk_action_ids\<close>

text \<open>
  Ids arrive as Python ints or strings. \<open>==\<close> between an int and a str is always
  False, which is structural equality on this datatype.
\<close>

datatype pyval = PInt int | PStr string

definition digit_char :: "nat \<Rightarrow> char" where
  "digit_char d = char_of (48 + d)"

fun digits :: "nat \<Rightarrow> string" where
  "digits n = (if n < 10 then [digit_char n] else digits (n div 10) @ [digit_char (n mod 10)])"

declare digits.simps [simp del]

text \<open>Python's \<open>str\<close>: the decimal numeral of an int, the identity on a str.\<close>

fun py_str :: "pyval \<Rightarrow> pyval" where
  "py_str (PInt i) = PStr (if i < 0 then CHR ''-'' # digits (nat (- i)) else digits (nat i))"
| "py_str (PStr s) = PStr s"

text \<open>
  In Python 3 \<open>map(str, omit_ids)\<close> is a lazy iterator, modelled by the list of items
  it has yet to yield. \<open>x in it\<close> advances the iterator up to and including the first
  item equal to \<open>x\<close>, or exhausts it; the items passed are gone for later tests.
\<close>

fun iter_contains :: "pyval \<Rightarrow> pyval list \<Rightarrow> bool \<times> pyval list" where
  "iter_contains x [] = (False, [])"
| "iter_contains x (y # ys) = (if y = x then (True, ys) else iter_contains x ys)"

text \<open>The comprehension \<open>[id for id in ids if id not in omit_ids]\<close>, threading the iterator.\<close>

fun comprehension_not_in :: "pyval list \<Rightarrow> pyval list \<Rightarrow> pyval list" where
  "comprehension_not_in [] it = []"
| "comprehension_not_in (i # ids) it =
     (case iter_contains i it of
        (found, it') \<Rightarrow>
          (if \<not> found then i # comprehension_not_in ids it' else comprehension_not_in ids it'))"

text \<open>A map object has no \<open>__bool__\<close> or \<open>__len__\<close>: it is truthy even when empty.\<close>

definition iterator_truthy :: "pyval list \<Rightarrow> bool" where
  "iterator_truthy it = True"

definition get_bulk_action_ids :: "pyval list \<Rightarrow> pyval list \<Rightarrow> pyval list" where
  "get_bulk_action_ids ids omit_ids =
     (let omit_ids = map py_str omit_ids
      in if iterator_truthy omit_ids then comprehension_not_in ids omit_ids else ids)"

subsection \<open>bulk_delete\<close>

text \<open>
  The model's table: rows in storage order, each with its primary key \<open>id\<close> and the
  rest of its columns; and the number of commits the session has issued.
\<close>

record 'a db_table =
  table_rows :: "(int \<times> 'a) list"
  commits :: nat

text \<open>
  \<open>query.filter(criterion).delete(synchronize_session=False)\<close> issues one
  \<open>DELETE ... WHERE criterion\<close>: the database scans the table, removes each row that
  satisfies the criterion and reports the number of rows removed.
\<close>

fun query_filter_delete :: "(int \<Rightarrow> bool) \<Rightarrow> (int \<times> 'a) list \<Rightarrow> nat \<times> (int \<times> 'a) list" where
  "query_filter_delete criterion [] = (0, [])"
| "query_filter_delete criterion (r # rs) =
     (case query_filter_delete criterion rs of
        (n, kept) \<Rightarrow> (if criterion (fst r) then (Suc n, kept) else (n, r # kept)))"

definition id_in :: "int list \<Rightarrow> int \<Rightarrow> bool" where
  "id_in ids i = (i \<in> set ids)"

definition bulk_delete :: "int list \<Rightarrow> 'a db_table \<Rightarrow> nat \<times> 'a db_table" where
  "bulk_delete ids db =
     (case query_filter_delete (id_in ids) (table_rows db) of
        (delete_count, kept) \<Rightarrow>
          (delete_count, db\<lparr>table_rows := kept, commits := Suc (commits db)\<rparr>))"

subsection \<open>update\<close>
















section \<open>src/resources/auth.py: AuthView\<close>

text \<open>
  What a view function hands back to the framework: nothing (\<open>None\<close>), a body, or a
  pair of a body and a status code.
\<close>

datatype view_result =
    RNone
  | RBody json
  | RBodyStatus json nat

text \<open>
  The status the framework sends: the one of the pair, 200 for a bare body. A view
  that returns \<open>None\<close> makes the framework raise a \<open>TypeError\<close>.
\<close>

fun http_status :: "view_result \<Rightarrow> exn + nat" where
  "http_status RNone = Inl (OtherError ''TypeError'')"
| "http_status (RBody body) = Inr 200"
| "http_status (RBodyStatus body status) = Inr status"

text \<open>
  \<open>AuthenticationManager\<close> lives in src/services, outside the files at hand. The
  views only call it, so it is a parameter: two operations on the manager's own state
  \<open>'m\<close> (users, token blocklist), each of which returns or raises.
\<close>

record 'm authentication_manager =
  am_login :: "json \<Rightarrow> 'm \<Rightarrow> (exn + view_result) \<times> 'm"
  am_revoke_token :: "json \<Rightarrow> 'm \<Rightarrow> (exn + json) \<times> 'm"

text \<open>
  The state a request runs in: the manager's state, and the calls the views have made
  to the manager so far, in order.
\<close>

datatype manager_call = LoginCall json | RevokeTokenCall json

record 'm world =
  manager_calls :: "manager_call list"
  manager_state :: 'm

definition authentication_manager_login ::
    "'m authentication_manager \<Rightarrow> json \<Rightarrow> 'm world \<Rightarrow> (exn + view_result) \<times> 'm world" where
  "authentication_manager_login am data w =
     (case am_login am data (manager_state w) of
        (r, m') \<Rightarrow> (r, \<lparr>manager_calls = manager_calls w @ [LoginCall data], manager_state = m'\<rparr>))"

definition authentication_manager_revoke_token ::
    "'m authentication_manager \<Rightarrow> json \<Rightarrow> 'm world \<Rightarrow> (exn + json) \<times> 'm world" where
  "authentication_manager_revoke_token am jti w =
     (case am_revoke_token am jti (manager_state w) of
        (r, m') \<Rightarrow> (r, \<lparr>manager_calls = manager_calls w @ [RevokeTokenCall jti], manager_state = m'\<rparr>))"

text \<open>Subscripting a dict: \<open>d[key]\<close> raises \<open>KeyError\<close> on a missing key.\<close>

definition dict_getitem :: "(string \<times> json) list \<Rightarrow> string \<Rightarrow> exn + json" where
  "dict_getitem d key = (case map_of d key of None \<Rightarrow> Inl (KeyError key) | Some v \<Rightarrow> Inr v)"

text \<open>
  \<open>login\<close>. \<open>json_data\<close> is \<open>request.get_json()\<close>; \<open>login_schema_load\<close> is
  \<open>LoginSchema().load\<close> (the schema's declaration is in src/schemas), which returns
  the validated data or raises. Only \<open>ValidationError\<close> is caught.
\<close>

definition login ::
    "(json \<Rightarrow> exn + json) \<Rightarrow> 'm authentication_manager \<Rightarrow> json \<Rightarrow> 'm world
      \<Rightarrow> (exn + view_result) \<times> 'm world" where
  "login login_schema_load am json_data w =
     (case login_schema_load json_data of
        Inl (ValidationError messages) \<Rightarrow>
          (Inr (RBodyStatus (JObj [(''errors'', messages)]) 422), w)
      | Inl e \<Rightarrow> (Inl e, w)
      | Inr data \<Rightarrow> authentication_manager_login am data w)"

text \<open>The two password reset views: the body of each is \<open>pass\<close>.\<close>

definition reset_password_request :: "json \<Rightarrow> 'm world \<Rightarrow> (exn + view_result) \<times> 'm world" where
  "reset_password_request json_data w = (Inr RNone, w)"

definition reset_password :: "string \<Rightarrow> json \<Rightarrow> 'm world \<Rightarrow> (exn + view_result) \<times> 'm world" where
  "reset_password token json_data w = (Inr RNone, w)"

text \<open>
  The two revocation views, as the bodies run once \<open>jwt_required\<close> has admitted the
  request. \<open>jwt\<close> is \<open>get_jwt()\<close>, the claims of the verified token. The subscript
  stands before the \<open>try\<close>; the bare \<open>except\<close> catches whatever the call raises.
\<close>

definition access_token_revoke ::
    "'m authentication_manager \<Rightarrow> (string \<times> json) list \<Rightarrow> 'm world
      \<Rightarrow> (exn + view_result) \<times> 'm world" where
  "access_token_revoke am jwt w =
     (case dict_getitem jwt ''jti'' of
        Inl e \<Rightarrow> (Inl e, w)
      | Inr jti \<Rightarrow>
          (case authentication_manager_revoke_token am jti w of
             (Inr v, w') \<Rightarrow>
               (Inr (RBody (JObj [(''message'', JStr ''Access token has been revoked'')])), w')
           | (Inl e, w') \<Rightarrow>
               (Inr (RBodyStatus (JObj [(''message'', JStr ''Something went wrong'')]) 500), w')))"

definition refresh_token_revoke ::
    "'m authentication_manager \<Rightarrow> (string \<times> json) list \<Rightarrow> 'm world
      \<Rightarrow> (exn + view_result) \<times> 'm world" where
  "refresh_token_revoke am jwt w =
     (case dict_getitem jwt ''jti'' of
        Inl e \<Rightarrow> (Inl e, w)
      | Inr jti \<Rightarrow>
          (case authentication_manager_revoke_token am jti w of
             (Inr v, w') \<Rightarrow>
               (Inr (RBody (JObj [(''message'', JStr ''Access token has been revoked'')])), w')
           | (Inl e, w') \<Rightarrow>
               (Inr (RBodyStatus (JObj [(''message'', JStr ''Something went wrong'')]) 500), w')))"

text \<open>
  A small manager to run the views on: its state is the blocklist of revoked token
  ids. It knows one user, and its store refuses a token without an id.
\<close>

definition demo_credentials :: json where
  "demo_credentials = JObj [(''email'', JStr ''client@endo.com''), (''password'', JStr ''client@password'')]"

definition demo_tokens :: json where
  "demo_tokens = JObj [(''access_token'', JStr ''aaa''), (''refresh_token'', JStr ''rrr'')]"

definition demo_manager :: "json list authentication_manager" where
  "demo_manager =
     \<lparr>am_login = (\<lambda>data blocklist.
          if data = demo_credentials then (Inr (RBody demo_tokens), blocklist)
          else (Inr (RBodyStatus (JObj [(''message'', JStr ''Invalid credentials'')]) 401), blocklist)),
      am_revoke_token = (\<lambda>jti blocklist.
          if jti = JNull then (Inl (OtherError ''IntegrityError''), blocklist)
          else (Inr JNull, jti # blocklist))\<rparr>"

text \<open>A schema that wants an object with an \<open>email\<close> and a \<open>password\<close>.\<close>

definition demo_schema_load :: "json \<Rightarrow> exn + json" where
  "demo_schema_load json_data =
     (case json_data of
        JObj members \<Rightarrow>
          (if map_of members ''email'' = None
           then Inl (ValidationError (JObj [(''email'', JList [JStr ''Missing data for required field.''])]))
           else if map_of members ''password'' = None
           then Inl (ValidationError (JObj [(''password'', JList [JStr ''Missing data for required field.''])]))
           else Inr json_data)
      | _ \<Rightarrow> Inl (ValidationError (JObj [(''_schema'', JList [JStr ''Invalid input type.''])])))"

section \<open>src/tests/conftest.py: the seeding fixtures\<close>

text \<open>
  A date of the current year is the number of days since 1 January.
  \<open>strftime("%Y-%m-%d")\<close> renders different dates as different strings, so the
  model keeps the day and leaves the rendering out. \<open>today\<close> is the day the
  fixtures run on.
\<close>

type_synonym date = nat

text \<open>
  A random source: the numbers it is going to yield, and how many it has yielded.
  Nothing is assumed about the numbers. Faker and the \<open>random\<close> module each have a
  source of their own.
\<close>

record rng =
  draws :: "nat \<Rightarrow> nat"
  drawn :: nat

definition next_random :: "rng \<Rightarrow> nat \<times> rng" where
  "next_random g = (draws g (drawn g), g\<lparr>drawn := Suc (drawn g)\<rparr>)"

text \<open>\<open>randint(a, b)\<close> lies in \<open>a..b\<close>, \<open>randrange(start, stop)\<close> in \<open>start..<stop\<close>.\<close>

definition randint :: "nat \<Rightarrow> nat \<Rightarrow> rng \<Rightarrow> nat \<times> rng" where
  "randint a b g = (case next_random g of (r, g') \<Rightarrow> (a + r mod (b - a + 1), g'))"

definition randrange :: "nat \<Rightarrow> nat \<Rightarrow> rng \<Rightarrow> nat \<times> rng" where
  "randrange start stop g = (case next_random g of (r, g') \<Rightarrow> (start + r mod (stop - start), g'))"

record rotation =
  rotation_date :: date
  shaft_a_normal_rotation :: nat
  shaft_a_reverse_rotation :: nat
  rotation_customer_machine_id :: nat

record operating_time =
  operating_time_date :: date
  duration :: nat
  operating_time_customer_machine_id :: nat

record customer_machine =
  machine_id :: nat
  machine_code :: string
  machine_customer_id :: nat
  machine_model_id :: nat

record fixture_world =
  faker_random :: rng
  py_random :: rng
  rotation_table :: "rotation list"
  operating_time_table :: "operating_time list"
  customer_machine_table :: "customer_machine list"

text \<open>
  Modelled from the spec: \<open>RotationService\<close> and \<open>OperatingTimeService\<close> are in
  src/services, outside the files at hand. The spec has rotations and operating times
  as plain records created by an ORM insert, and the fixtures' \<open>is_exists\<close> as the
  check that a record with the (date, machine) pair already exists, which the core
  system itself does not enforce.
\<close>

definition RotationService_is_exists :: "date \<Rightarrow> nat \<Rightarrow> fixture_world \<Rightarrow> bool" where
  "RotationService_is_exists d machine w =
     (\<exists>r \<in> set (rotation_table w). rotation_date r = d \<and> rotation_customer_machine_id r = machine)"

definition RotationService_create :: "rotation \<Rightarrow> fixture_world \<Rightarrow> fixture_world" where
  "RotationService_create data w = w\<lparr>rotation_table := rotation_table w @ [data]\<rparr>"

definition OperatingTimeService_is_exists :: "date \<Rightarrow> nat \<Rightarrow> fixture_world \<Rightarrow> bool" where
  "OperatingTimeService_is_exists d machine w =
     (\<exists>r \<in> set (operating_time_table w).
        operating_time_date r = d \<and> operating_time_customer_machine_id r = machine)"

definition OperatingTimeService_create :: "operating_time \<Rightarrow> fixture_world \<Rightarrow> fixture_world" where
  "OperatingTimeService_create data w = w\<lparr>operating_time_table := operating_time_table w @ [data]\<rparr>"

text \<open>\<open>_get_random_date\<close>: Faker's \<open>date_between\<close> 1 January and today, both included.\<close>

definition get_random_date :: "nat \<Rightarrow> fixture_world \<Rightarrow> date \<times> fixture_world" where
  "get_random_date today w =
     (case randint 0 today (faker_random w) of (d, g) \<Rightarrow> (d, w\<lparr>faker_random := g\<rparr>))"

text \<open>
  \<open>_get_rotation_date\<close> and \<open>_get_operating_time_date\<close> call themselves until the
  date drawn is free. \<open>depth\<close> is the number of nested calls the interpreter still
  allows; a call beyond it raises \<open>RecursionError\<close>.
\<close>

fun get_rotation_date :: "nat \<Rightarrow> nat \<Rightarrow> nat \<Rightarrow> fixture_world \<Rightarrow> (exn + date) \<times> fixture_world" where
  "get_rotation_date today 0 machine w = (Inl RecursionError, w)"
| "get_rotation_date today (Suc depth) machine w =
     (case get_random_date today w of
        (d, w') \<Rightarrow>
          (if RotationService_is_exists d machine w'
           then get_rotation_date today depth machine w'
           else (Inr d, w')))"

fun get_operating_time_date :: "nat \<Rightarrow> nat \<Rightarrow> nat \<Rightarrow> fixture_world \<Rightarrow> (exn + date) \<times> fixture_world" where
  "get_operating_time_date today 0 machine w = (Inl RecursionError, w)"
| "get_operating_time_date today (Suc depth) machine w =
     (case get_random_date today w of
        (d, w') \<Rightarrow>
          (if OperatingTimeService_is_exists d machine w'
           then get_operating_time_date today depth machine w'
           else (Inr d, w')))"

text \<open>
  A \<open>for\<close> loop whose body may raise: the loop stops at the first exception, and what
  the earlier rounds did to the state stays done.
\<close>

fun for_each :: "('a \<Rightarrow> 's \<Rightarrow> exn option \<times> 's) \<Rightarrow> 'a list \<Rightarrow> 's \<Rightarrow> exn option \<times> 's" where
  "for_each body [] s = (None, s)"
| "for_each body (x # xs) s =
     (case body x s of
        (Some e, s') \<Rightarrow> (Some e, s')
      | (None, s') \<Rightarrow> for_each body xs s')"

text \<open>One round of the innermost loop of \<open>rotations\<close>: draw a free date, draw the two counters, create the record.\<close>

definition seed_rotation :: "nat \<Rightarrow> nat \<Rightarrow> customer_machine \<Rightarrow> fixture_world \<Rightarrow> exn option \<times> fixture_world" where
  "seed_rotation today depth machine w =
     (case get_rotation_date today depth (machine_id machine) w of
        (Inl e, w') \<Rightarrow> (Some e, w')
      | (Inr d, w') \<Rightarrow>
          (case randrange 200 600 (py_random w') of
             (normal, g) \<Rightarrow>
               (case randrange 200 600 g of
                  (reverse, g') \<Rightarrow>
                    (None, RotationService_create
                       \<lparr>rotation_date = d,
                        shaft_a_normal_rotation = normal,
                        shaft_a_reverse_rotation = reverse,
                        rotation_customer_machine_id = machine_id machine\<rparr>
                       (w'\<lparr>py_random := g'\<rparr>)))))"

definition seed_operating_time :: "nat \<Rightarrow> nat \<Rightarrow> customer_machine \<Rightarrow> fixture_world \<Rightarrow> exn option \<times> fixture_world" where
  "seed_operating_time today depth machine w =
     (case get_operating_time_date today depth (machine_id machine) w of
        (Inl e, w') \<Rightarrow> (Some e, w')
      | (Inr d, w') \<Rightarrow>
          (case randrange 10000 50000 (py_random w') of
             (seconds, g) \<Rightarrow>
               (None, OperatingTimeService_create
                  \<lparr>operating_time_date = d,
                   duration = seconds,
                   operating_time_customer_machine_id = machine_id machine\<rparr>
                  (w'\<lparr>py_random := g\<rparr>))))"

text \<open>
  The fixtures \<open>rotations\<close> and \<open>operating_times\<close>. \<open>customers\<close> are the ids of
  \<open>UserService.get_all_customers()\<close>; the machines of a customer are queried when
  its round of the outer loop starts; each machine gets ten records.
\<close>

definition rotations :: "nat \<Rightarrow> nat \<Rightarrow> nat list \<Rightarrow> fixture_world \<Rightarrow> exn option \<times> fixture_world" where
  "rotations today depth customers w =
     for_each (\<lambda>customer w.
         for_each (\<lambda>machine w.
             for_each (\<lambda>i w. seed_rotation today depth machine w) [0..<10] w)
           (filter (\<lambda>m. machine_customer_id m = customer) (customer_machine_table w)) w)
       customers w"

definition operating_times :: "nat \<Rightarrow> nat \<Rightarrow> nat list \<Rightarrow> fixture_world \<Rightarrow> exn option \<times> fixture_world" where
  "operating_times today depth customers w =
     for_each (\<lambda>customer w.
         for_each (\<lambda>machine w.
             for_each (\<lambda>i w. seed_operating_time today depth machine w) [0..<10] w)
           (filter (\<lambda>m. machine_customer_id m = customer) (customer_machine_table w)) w)
       customers w"

text \<open>The (date, machine) pair of a record, and the date the random source yields at its \<open>j\<close>-th next draw.\<close>

definition rotation_key :: "rotation \<Rightarrow> date \<times> nat" where
  "rotation_key r = (rotation_date r, rotation_customer_machine_id r)"

definition operating_time_key :: "operating_time \<Rightarrow> date \<times> nat" where
  "operating_time_key r = (operating_time_date r, operating_time_customer_machine_id r)"

definition drawn_date :: "nat \<Rightarrow> fixture_world \<Rightarrow> nat \<Rightarrow> date" where
  "drawn_date today w j = draws (faker_random w) (drawn (faker_random w) + j) mod (today + 1)"

text \<open>
  Two databases to run the fixtures on, each with one customer (id 2) who owns machine
  7. In the first, 1 January is taken for rotations and the random source cycles
  through every third day. In the second, 1 January is taken for both measurements and
  the random source yields nothing but 1 January.
\<close>

definition demo_world :: fixture_world where
  "demo_world =
     \<lparr>faker_random = \<lparr>draws = (\<lambda>i. 3 * i), drawn = 0\<rparr>,
      py_random = \<lparr>draws = (\<lambda>i. 17 * i + 5), drawn = 0\<rparr>,
      rotation_table =
        [\<lparr>rotation_date = 0, shaft_a_normal_rotation = 250, shaft_a_reverse_rotation = 300,
          rotation_customer_machine_id = 7\<rparr>],
      operating_time_table = [],
      customer_machine_table =
        [\<lparr>machine_id = 7, machine_code = ''new_model_0'', machine_customer_id = 2,
          machine_model_id = 1\<rparr>]\<rparr>"

definition stuck_world :: fixture_world where
  "stuck_world =
     \<lparr>faker_random = \<lparr>draws = (\<lambda>i. 0), drawn = 0\<rparr>,
      py_random = \<lparr>draws = (\<lambda>i. 17 * i + 5), drawn = 0\<rparr>,
      rotation_table =
        [\<lparr>rotation_date = 0, shaft_a_normal_rotation = 250, shaft_a_reverse_rotation = 300,
          rotation_customer_machine_id = 7\<rparr>],
      operating_time_table =
        [\<lparr>operating_time_date = 0, duration = 20000, operating_time_customer_machine_id = 7\<rparr>],
      customer_machine_table =
        [\<lparr>machine_id = 7, machine_code = ''new_model_0'', machine_customer_id = 2,
          machine_model_id = 1\<rparr>]\<rparr>"

section \<open>Properties of ResourceMixin\<close>

lemma sort_by_field_cases:
  "fst (sort_by columns field direction) = (if field \<in> set columns then field else ''created_at'')"
  by (simp add: sort_by_def)

lemma sort_by_direction_cases:
  "snd (sort_by columns field direction) =
     (if direction = ''asc'' \<or> direction = ''desc'' then direction else ''asc'')"
  by (simp add: sort_by_def)

text \<open>
  Claim C1. For every field and direction, \<open>sort_by\<close> returns the pair unchanged when
  the field is a column of the table and the direction is \<open>asc\<close> or \<open>desc\<close>; a field
  that is not a column is replaced by \<open>created_at\<close>, a direction that is neither is
  replaced by \<open>asc\<close>; so the returned field is a column or \<open>created_at\<close> and the
  returned direction is \<open>asc\<close> or \<open>desc\<close>.
\<close>

theorem sort_by_validates:
  "(field \<in> set columns \<and> direction \<in> {''asc'', ''desc''} \<longrightarrow>
      sort_by columns field direction = (field, direction))
   \<and> (field \<notin> set columns \<longrightarrow> fst (sort_by columns field direction) = ''created_at'')
   \<and> (field \<in> set columns \<longrightarrow> fst (sort_by columns field direction) = field)
   \<and> (direction \<notin> {''asc'', ''desc''} \<longrightarrow> snd (sort_by columns field direction) = ''asc'')
   \<and> (direction \<in> {''asc'', ''desc''} \<longrightarrow> snd (sort_by columns field direction) = direction)
   \<and> fst (sort_by columns field direction) \<in> set columns \<union> {''created_at''}
   \<and> snd (sort_by columns field direction) \<in> {''asc'', ''desc''}"
proof -
  have f: "fst (sort_by columns field direction) =
      (if field \<in> set columns then field else ''created_at'')"
    by (rule sort_by_field_cases)
  have d: "snd (sort_by columns field direction) =
      (if direction = ''asc'' \<or> direction = ''desc'' then direction else ''asc'')"
    by (rule sort_by_direction_cases)
  have p: "sort_by columns field direction =
      (fst (sort_by columns field direction), snd (sort_by columns field direction))"
    by simp
  show ?thesis
    unfolding f d by (subst p) (simp add: f d)
qed

theorem sort_by_validates_witness:
  "sort_by [''id'', ''created_at'', ''name''] ''name'' ''desc'' = (''name'', ''desc'')
   \<and> sort_by [''id'', ''created_at'', ''name''] ''password; --'' ''sideways'' = (''created_at'', ''asc'')
   \<and> sort_by [''id'', ''created_at'', ''name''] ''id'' ''DESC'' = (''id'', ''asc'')"
  using sort_by_validates [of "''name''" "[''id'', ''created_at'', ''name'']" "''desc''"]
    sort_by_validates [of "''password; --''" "[''id'', ''created_at'', ''name'']" "''sideways''"]
    sort_by_validates [of "''id''" "[''id'', ''created_at'', ''name'']" "''DESC''"]
  by (simp add: prod_eq_iff)

lemma py_str_is_str: "\<exists>s. py_str v = PStr s"
  by (cases v) simp_all

lemma iter_contains_int_in_strs: "iter_contains (PInt i) (map py_str omit_ids) = (False, [])"
proof (induction omit_ids)
  case Nil
  show ?case by simp
next
  case (Cons v vs)
  obtain s where "py_str v = PStr s"
    using py_str_is_str by blast
  with Cons show ?case by simp
qed

lemma comprehension_not_in_ints:
  "comprehension_not_in (map PInt ids) (map py_str omit_ids) = map PInt ids"
proof (induction ids arbitrary: omit_ids)
  case Nil
  show ?case by simp
next
  case (Cons i ids)
  have "comprehension_not_in (map PInt ids) (map py_str []) = map PInt ids"
    by (rule Cons.IH)
  then show ?case
    by (simp add: iter_contains_int_in_strs)
qed

lemma get_bulk_action_ids_ints_any_omit:
  "get_bulk_action_ids (map PInt ids) omit_ids = map PInt ids"
  by (simp add: get_bulk_action_ids_def iterator_truthy_def comprehension_not_in_ints)

text \<open>
  Claim C9. \<open>get_bulk_action_ids\<close> turns \<open>omit_ids\<close> into strings before it filters,
  so for integer \<open>ids\<close> and integer \<open>omit_ids\<close> it returns \<open>ids\<close> unchanged: no
  integer id is filtered out, even one that also stands in \<open>omit_ids\<close>.
\<close>

theorem get_bulk_action_ids_never_omits_ints:
  "get_bulk_action_ids (map PInt ids) (map PInt omit_ids) = map PInt ids"
  by (rule get_bulk_action_ids_ints_any_omit)

theorem get_bulk_action_ids_never_omits_ints_witness:
  "get_bulk_action_ids [PInt 1, PInt 2, PInt 3] [PInt 2] = [PInt 1, PInt 2, PInt 3]"
  using get_bulk_action_ids_never_omits_ints [of "[1, 2, 3]" "[2]"]
  by simp

lemma query_filter_delete_kept:
  "snd (query_filter_delete criterion rs) = filter (\<lambda>r. \<not> criterion (fst r)) rs"
  by (induction rs) (auto split: prod.splits)

lemma query_filter_delete_count:
  "fst (query_filter_delete criterion rs) = length (filter (\<lambda>r. criterion (fst r)) rs)"
  by (induction rs) (auto split: prod.splits)

lemma bulk_delete_rows:
  "table_rows (snd (bulk_delete ids db)) = filter (\<lambda>r. fst r \<notin> set ids) (table_rows db)"
  using query_filter_delete_kept [of "id_in ids" "table_rows db"]
  by (cases "query_filter_delete (id_in ids) (table_rows db)") (simp add: bulk_delete_def id_in_def)

lemma bulk_delete_count:
  "fst (bulk_delete ids db) = length (filter (\<lambda>r. fst r \<in> set ids) (table_rows db))"
  using query_filter_delete_count [of "id_in ids" "table_rows db"]
  by (cases "query_filter_delete (id_in ids) (table_rows db)") (simp add: bulk_delete_def id_in_def)

text \<open>
  Claim C6. \<open>bulk_delete ids\<close> removes, with one filtered delete, exactly the rows whose
  id is a member of \<open>ids\<close>, keeps every other row as it was (and in its place), and
  returns the number of rows it removed.
\<close>

theorem bulk_delete_exact:
  "table_rows (snd (bulk_delete ids db)) = filter (\<lambda>r. fst r \<notin> set ids) (table_rows db)
   \<and> set (table_rows db) - set (table_rows (snd (bulk_delete ids db)))
       = {r. r \<in> set (table_rows db) \<and> fst r \<in> set ids}
   \<and> fst (bulk_delete ids db) = length (filter (\<lambda>r. fst r \<in> set ids) (table_rows db))
   \<and> fst (bulk_delete ids db) + length (table_rows (snd (bulk_delete ids db)))
       = length (table_rows db)
   \<and> commits (snd (bulk_delete ids db)) = Suc (commits db)"
proof -
  have rows: "table_rows (snd (bulk_delete ids db)) = filter (\<lambda>r. fst r \<notin> set ids) (table_rows db)"
    by (rule bulk_delete_rows)
  have cnt: "fst (bulk_delete ids db) = length (filter (\<lambda>r. fst r \<in> set ids) (table_rows db))"
    by (rule bulk_delete_count)
  have gone: "set (table_rows db) - set (table_rows (snd (bulk_delete ids db)))
       = {r. r \<in> set (table_rows db) \<and> fst r \<in> set ids}"
    unfolding rows by auto
  have total: "fst (bulk_delete ids db) + length (table_rows (snd (bulk_delete ids db)))
       = length (table_rows db)"
    unfolding rows cnt
    using sum_length_filter_compl [of "\<lambda>r. fst r \<in> set ids" "table_rows db"] by simp
  have com: "commits (snd (bulk_delete ids db)) = Suc (commits db)"
    by (cases "query_filter_delete (id_in ids) (table_rows db)") (simp add: bulk_delete_def)
  from rows gone cnt total com show ?thesis by blast
qed

theorem bulk_delete_exact_witness:
  "bulk_delete [2, 5, 2] \<lparr>table_rows = [(1, ''a''), (2, ''b''), (3, ''c''), (5, ''e'')], commits = 0\<rparr>
     = (2, \<lparr>table_rows = [(1, ''a''), (3, ''c'')], commits = 1\<rparr>)"
  using bulk_delete_exact [of "[2, 5, 2]"
      "\<lparr>table_rows = [(1, ''a''), (2, ''b''), (3, ''c''), (5, ''e'')], commits = 0\<rparr>"]
  by (simp add: bulk_delete_def id_in_def)

section \<open>Properties of AuthView\<close>

lemma login_invalid:
  assumes "login_schema_load json_data = Inl (ValidationError messages)"
  shows "login login_schema_load am json_data w =
           (Inr (RBodyStatus (JObj [(''errors'', messages)]) 422), w)"
  using assms by (simp add: login_def)

lemma login_valid:
  assumes "login_schema_load json_data = Inr data"
  shows "login login_schema_load am json_data w = authentication_manager_login am data w"
  using assms by (simp add: login_def)

lemma authentication_manager_login_result:
  "fst (authentication_manager_login am data w) = fst (am_login am data (manager_state w))"
  by (cases "am_login am data (manager_state w)") (simp add: authentication_manager_login_def)

lemma authentication_manager_login_calls:
  "manager_calls (snd (authentication_manager_login am data w)) = manager_calls w @ [LoginCall data]"
  by (cases "am_login am data (manager_state w)") (simp add: authentication_manager_login_def)

lemma authentication_manager_login_state:
  "manager_state (snd (authentication_manager_login am data w)) = snd (am_login am data (manager_state w))"
  by (cases "am_login am data (manager_state w)") (simp add: authentication_manager_login_def)

text \<open>
  Claim C2. When the payload of a login request fails the schema's validation, the
  view returns \<open>{'errors': messages}\<close> with status 422 and makes no call to the
  authentication manager (the state, with its record of calls, is the one it started
  in). When the payload validates, the view returns what the manager's \<open>login\<close>
  returns on the validated data, after exactly that one call; so a token pair the
  manager issues for valid credentials is the view's result.
\<close>

theorem login_422_or_delegates:
  "(login_schema_load json_data = Inl (ValidationError messages) \<longrightarrow>
      login login_schema_load am json_data w
        = (Inr (RBodyStatus (JObj [(''errors'', messages)]) 422), w)
      \<and> http_status (RBodyStatus (JObj [(''errors'', messages)]) 422) = Inr 422
      \<and> manager_calls (snd (login login_schema_load am json_data w)) = manager_calls w)
   \<and> (login_schema_load json_data = Inr data \<longrightarrow>
      fst (login login_schema_load am json_data w) = fst (am_login am data (manager_state w))
      \<and> manager_calls (snd (login login_schema_load am json_data w))
          = manager_calls w @ [LoginCall data]
      \<and> manager_state (snd (login login_schema_load am json_data w))
          = snd (am_login am data (manager_state w)))
   \<and> (login_schema_load json_data = Inr data
        \<and> fst (am_login am data (manager_state w)) = Inr (RBody tokens) \<longrightarrow>
      fst (login login_schema_load am json_data w) = Inr (RBody tokens))"
proof (intro conjI impI)
  assume bad: "login_schema_load json_data = Inl (ValidationError messages)"
  show "login login_schema_load am json_data w
        = (Inr (RBodyStatus (JObj [(''errors'', messages)]) 422), w)"
    using bad by (rule login_invalid)
  then show "manager_calls (snd (login login_schema_load am json_data w)) = manager_calls w"
    by simp
next
  show "http_status (RBodyStatus (JObj [(''errors'', messages)]) 422) = Inr 422"
    by simp
next
  assume ok: "login_schema_load json_data = Inr data"
  show "fst (login login_schema_load am json_data w) = fst (am_login am data (manager_state w))"
    using ok by (simp add: login_valid authentication_manager_login_result)
  show "manager_calls (snd (login login_schema_load am json_data w))
          = manager_calls w @ [LoginCall data]"
    using ok by (simp add: login_valid authentication_manager_login_calls)
  show "manager_state (snd (login login_schema_load am json_data w))
          = snd (am_login am data (manager_state w))"
    using ok by (simp add: login_valid authentication_manager_login_state)
next
  assume "login_schema_load json_data = Inr data
        \<and> fst (am_login am data (manager_state w)) = Inr (RBody tokens)"
  then show "fst (login login_schema_load am json_data w) = Inr (RBody tokens)"
    by (simp add: login_valid authentication_manager_login_result)
qed

theorem login_422_or_delegates_witness:
  "login demo_schema_load demo_manager (JObj [(''email'', JStr ''client@endo.com'')])
       \<lparr>manager_calls = [], manager_state = []\<rparr>
     = (Inr (RBodyStatus
          (JObj [(''errors'', JObj [(''password'', JList [JStr ''Missing data for required field.''])])])
          422),
        \<lparr>manager_calls = [], manager_state = []\<rparr>)
   \<and> login demo_schema_load demo_manager demo_credentials
       \<lparr>manager_calls = [], manager_state = []\<rparr>
     = (Inr (RBody demo_tokens),
        \<lparr>manager_calls = [LoginCall demo_credentials], manager_state = []\<rparr>)"
proof -
  let ?w = "\<lparr>manager_calls = [], manager_state = [] :: json list\<rparr>"
  let ?bad = "JObj [(''email'', JStr ''client@endo.com'')]"
  let ?messages = "JObj [(''password'', JList [JStr ''Missing data for required field.''])]"
  have bad: "demo_schema_load ?bad = Inl (ValidationError ?messages)"
    by (simp add: demo_schema_load_def)
  have ok: "demo_schema_load demo_credentials = Inr demo_credentials"
    by (simp add: demo_schema_load_def demo_credentials_def)
  have issued: "fst (am_login demo_manager demo_credentials (manager_state ?w)) = Inr (RBody demo_tokens)"
    by (simp add: demo_manager_def)
  have unchanged: "snd (am_login demo_manager demo_credentials (manager_state ?w)) = []"
    by (simp add: demo_manager_def)
  note invalid = login_422_or_delegates
    [of demo_schema_load ?bad ?messages demo_manager ?w demo_credentials demo_tokens]
  note valid = login_422_or_delegates
    [of demo_schema_load demo_credentials ?messages demo_manager ?w demo_credentials demo_tokens]
  from invalid bad have first: "login demo_schema_load demo_manager ?bad ?w
      = (Inr (RBodyStatus (JObj [(''errors'', ?messages)]) 422), ?w)"
    by blast
  from valid ok issued unchanged
  have "fst (login demo_schema_load demo_manager demo_credentials ?w) = Inr (RBody demo_tokens)"
    and "manager_calls (snd (login demo_schema_load demo_manager demo_credentials ?w))
          = [LoginCall demo_credentials]"
    and "manager_state (snd (login demo_schema_load demo_manager demo_credentials ?w)) = []"
    by simp_all
  then have second: "login demo_schema_load demo_manager demo_credentials ?w
      = (Inr (RBody demo_tokens), \<lparr>manager_calls = [LoginCall demo_credentials], manager_state = []\<rparr>)"
    by (cases "login demo_schema_load demo_manager demo_credentials ?w") auto
  from first second show ?thesis by blast
qed

lemma authentication_manager_revoke_token_result:
  "fst (authentication_manager_revoke_token am jti w) = fst (am_revoke_token am jti (manager_state w))"
  by (cases "am_revoke_token am jti (manager_state w)")
    (simp add: authentication_manager_revoke_token_def)

lemma authentication_manager_revoke_token_calls:
  "manager_calls (snd (authentication_manager_revoke_token am jti w))
     = manager_calls w @ [RevokeTokenCall jti]"
  by (cases "am_revoke_token am jti (manager_state w)")
    (simp add: authentication_manager_revoke_token_def)

lemma access_token_revoke_with_jti:
  assumes "map_of jwt ''jti'' = Some jti"
  shows "access_token_revoke am jwt w =
     (case fst (am_revoke_token am jti (manager_state w)) of
        Inr v \<Rightarrow> Inr (RBody (JObj [(''message'', JStr ''Access token has been revoked'')]))
      | Inl e \<Rightarrow> Inr (RBodyStatus (JObj [(''message'', JStr ''Something went wrong'')]) 500),
      snd (authentication_manager_revoke_token am jti w))"
proof (cases "authentication_manager_revoke_token am jti w")
  case (Pair r w')
  then have "fst (am_revoke_token am jti (manager_state w)) = r"
    using authentication_manager_revoke_token_result [of am jti w] by simp
  with Pair assms show ?thesis
    by (cases r) (simp_all add: access_token_revoke_def dict_getitem_def)
qed

lemma refresh_token_revoke_with_jti:
  assumes "map_of jwt ''jti'' = Some jti"
  shows "refresh_token_revoke am jwt w =
     (case fst (am_revoke_token am jti (manager_state w)) of
        Inr v \<Rightarrow> Inr (RBody (JObj [(''message'', JStr ''Access token has been revoked'')]))
      | Inl e \<Rightarrow> Inr (RBodyStatus (JObj [(''message'', JStr ''Something went wrong'')]) 500),
      snd (authentication_manager_revoke_token am jti w))"
proof (cases "authentication_manager_revoke_token am jti w")
  case (Pair r w')
  then have "fst (am_revoke_token am jti (manager_state w)) = r"
    using authentication_manager_revoke_token_result [of am jti w] by simp
  with Pair assms show ?thesis
    by (cases r) (simp_all add: refresh_token_revoke_def dict_getitem_def)
qed

text \<open>
  Claim C3. In both revocation views, whatever exception the manager's
  \<open>revoke_token\<close> raises, the view returns \<open>{'message': 'Something went wrong'}\<close>
  with status 500; when the call returns, the view returns its success message, which
  the framework sends with status 200; and in neither case does the view raise. The
  token's claims hold a \<open>jti\<close> entry, as they do for every token \<open>jwt_required\<close>
  admits.
\<close>

theorem revoke_views_catch_everything:
  "(map_of jwt ''jti'' = Some jti \<and> fst (am_revoke_token am jti (manager_state w)) = Inl e \<longrightarrow>
      fst (access_token_revoke am jwt w)
        = Inr (RBodyStatus (JObj [(''message'', JStr ''Something went wrong'')]) 500)
      \<and> fst (refresh_token_revoke am jwt w)
        = Inr (RBodyStatus (JObj [(''message'', JStr ''Something went wrong'')]) 500)
      \<and> http_status (RBodyStatus (JObj [(''message'', JStr ''Something went wrong'')]) 500) = Inr 500)
   \<and> (map_of jwt ''jti'' = Some jti \<and> fst (am_revoke_token am jti (manager_state w)) = Inr v \<longrightarrow>
      fst (access_token_revoke am jwt w)
        = Inr (RBody (JObj [(''message'', JStr ''Access token has been revoked'')]))
      \<and> fst (refresh_token_revoke am jwt w)
        = Inr (RBody (JObj [(''message'', JStr ''Access token has been revoked'')]))
      \<and> (\<exists>r. fst (access_token_revoke am jwt w) = Inr r \<and> http_status r = Inr 200)
      \<and> (\<exists>r. fst (refresh_token_revoke am jwt w) = Inr r \<and> http_status r = Inr 200))
   \<and> (map_of jwt ''jti'' = Some jti \<longrightarrow>
      (\<exists>r. fst (access_token_revoke am jwt w) = Inr r)
      \<and> (\<exists>r. fst (refresh_token_revoke am jwt w) = Inr r))"
proof (intro conjI impI)
  assume raised: "map_of jwt ''jti'' = Some jti \<and> fst (am_revoke_token am jti (manager_state w)) = Inl e"
  then show "fst (access_token_revoke am jwt w)
        = Inr (RBodyStatus (JObj [(''message'', JStr ''Something went wrong'')]) 500)"
    by (simp add: access_token_revoke_with_jti)
  from raised show "fst (refresh_token_revoke am jwt w)
        = Inr (RBodyStatus (JObj [(''message'', JStr ''Something went wrong'')]) 500)"
    by (simp add: refresh_token_revoke_with_jti)
next
  show "http_status (RBodyStatus (JObj [(''message'', JStr ''Something went wrong'')]) 500) = Inr 500"
    by simp
next
  assume returned: "map_of jwt ''jti'' = Some jti \<and> fst (am_revoke_token am jti (manager_state w)) = Inr v"
  then have a: "fst (access_token_revoke am jwt w)
      = Inr (RBody (JObj [(''message'', JStr ''Access token has been revoked'')]))"
    by (simp add: access_token_revoke_with_jti)
  from returned have r: "fst (refresh_token_revoke am jwt w)
      = Inr (RBody (JObj [(''message'', JStr ''Access token has been revoked'')]))"
    by (simp add: refresh_token_revoke_with_jti)
  from a show "fst (access_token_revoke am jwt w)
      = Inr (RBody (JObj [(''message'', JStr ''Access token has been revoked'')]))" .
  from r show "fst (refresh_token_revoke am jwt w)
      = Inr (RBody (JObj [(''message'', JStr ''Access token has been revoked'')]))" .
  from a show "\<exists>r. fst (access_token_revoke am jwt w) = Inr r \<and> http_status r = Inr 200"
    by simp
  from r show "\<exists>r. fst (refresh_token_revoke am jwt w) = Inr r \<and> http_status r = Inr 200"
    by simp
next
  assume jti: "map_of jwt ''jti'' = Some jti"
  show "\<exists>r. fst (access_token_revoke am jwt w) = Inr r"
    by (cases "fst (am_revoke_token am jti (manager_state w))")
      (simp_all add: access_token_revoke_with_jti [OF jti])
  show "\<exists>r. fst (refresh_token_revoke am jwt w) = Inr r"
    by (cases "fst (am_revoke_token am jti (manager_state w))")
      (simp_all add: refresh_token_revoke_with_jti [OF jti])
qed

theorem revoke_views_catch_everything_witness:
  "access_token_revoke demo_manager [(''sub'', JNum 2), (''jti'', JNull), (''type'', JStr ''access'')]
       \<lparr>manager_calls = [], manager_state = []\<rparr>
     = (Inr (RBodyStatus (JObj [(''message'', JStr ''Something went wrong'')]) 500),
        \<lparr>manager_calls = [RevokeTokenCall JNull], manager_state = []\<rparr>)
   \<and> fst (refresh_token_revoke demo_manager
        [(''sub'', JNum 2), (''jti'', JNull), (''type'', JStr ''refresh'')]
        \<lparr>manager_calls = [], manager_state = []\<rparr>)
     = Inr (RBodyStatus (JObj [(''message'', JStr ''Something went wrong'')]) 500)
   \<and> fst (access_token_revoke demo_manager
        [(''sub'', JNum 2), (''jti'', JStr ''0f3a''), (''type'', JStr ''access'')]
        \<lparr>manager_calls = [], manager_state = []\<rparr>)
     = Inr (RBody (JObj [(''message'', JStr ''Access token has been revoked'')]))
   \<and> refresh_token_revoke demo_manager
        [(''sub'', JNum 2), (''jti'', JStr ''0f3a''), (''type'', JStr ''refresh'')]
        \<lparr>manager_calls = [], manager_state = []\<rparr>
     = (Inr (RBody (JObj [(''message'', JStr ''Access token has been revoked'')])),
        \<lparr>manager_calls = [RevokeTokenCall (JStr ''0f3a'')], manager_state = [JStr ''0f3a'']\<rparr>)"
proof -
  let ?w = "\<lparr>manager_calls = [], manager_state = [] :: json list\<rparr>"
  let ?a0 = "[(''sub'', JNum 2), (''jti'', JNull), (''type'', JStr ''access'')]"
  let ?r0 = "[(''sub'', JNum 2), (''jti'', JNull), (''type'', JStr ''refresh'')]"
  let ?a1 = "[(''sub'', JNum 2), (''jti'', JStr ''0f3a''), (''type'', JStr ''access'')]"
  let ?r1 = "[(''sub'', JNum 2), (''jti'', JStr ''0f3a''), (''type'', JStr ''refresh'')]"
  have raises: "fst (am_revoke_token demo_manager JNull (manager_state ?w)) = Inl (OtherError ''IntegrityError'')"
    by (simp add: demo_manager_def)
  have returns: "fst (am_revoke_token demo_manager (JStr ''0f3a'') (manager_state ?w)) = Inr JNull"
    by (simp add: demo_manager_def)
  have c2: "fst (refresh_token_revoke demo_manager ?r0 ?w)
      = Inr (RBodyStatus (JObj [(''message'', JStr ''Something went wrong'')]) 500)"
    using revoke_views_catch_everything
      [of ?r0 JNull demo_manager ?w "OtherError ''IntegrityError''" JNull] raises
    by simp
  have c3: "fst (access_token_revoke demo_manager ?a1 ?w)
      = Inr (RBody (JObj [(''message'', JStr ''Access token has been revoked'')]))"
    using revoke_views_catch_everything
      [of ?a1 "JStr ''0f3a''" demo_manager ?w "OtherError ''IntegrityError''" JNull] returns
    by simp
  have c1: "access_token_revoke demo_manager ?a0 ?w
      = (Inr (RBodyStatus (JObj [(''message'', JStr ''Something went wrong'')]) 500),
         \<lparr>manager_calls = [RevokeTokenCall JNull], manager_state = []\<rparr>)"
    by (simp add: access_token_revoke_def dict_getitem_def
        authentication_manager_revoke_token_def demo_manager_def)
  have c4: "refresh_token_revoke demo_manager ?r1 ?w
      = (Inr (RBody (JObj [(''message'', JStr ''Access token has been revoked'')])),
         \<lparr>manager_calls = [RevokeTokenCall (JStr ''0f3a'')], manager_state = [JStr ''0f3a'']\<rparr>)"
    by (simp add: refresh_token_revoke_def dict_getitem_def
        authentication_manager_revoke_token_def demo_manager_def)
  from c1 c2 c3 c4 show ?thesis by blast
qed

text \<open>
  Claim C10. The two revocation views behave alike on the same token claims: they
  give the same result and leave the same state; each makes the one call
  \<open>revoke_token(jti)\<close>; and when it returns, both answer
  \<open>{'message': 'Access token has been revoked'}\<close>, so the refresh view has no
  message of its own.
\<close>

theorem revoke_views_identical:
  "access_token_revoke am jwt w = refresh_token_revoke am jwt w
   \<and> (map_of jwt ''jti'' = Some jti \<longrightarrow>
        manager_calls (snd (access_token_revoke am jwt w)) = manager_calls w @ [RevokeTokenCall jti]
        \<and> manager_calls (snd (refresh_token_revoke am jwt w)) = manager_calls w @ [RevokeTokenCall jti])
   \<and> (map_of jwt ''jti'' = Some jti \<and> fst (am_revoke_token am jti (manager_state w)) = Inr v \<longrightarrow>
        fst (access_token_revoke am jwt w)
          = Inr (RBody (JObj [(''message'', JStr ''Access token has been revoked'')]))
        \<and> fst (refresh_token_revoke am jwt w)
          = Inr (RBody (JObj [(''message'', JStr ''Access token has been revoked'')]))
        \<and> fst (refresh_token_revoke am jwt w)
          \<noteq> Inr (RBody (JObj [(''message'', JStr ''Refresh token has been revoked'')])))"
proof (intro conjI impI)
  show "access_token_revoke am jwt w = refresh_token_revoke am jwt w"
    by (simp add: access_token_revoke_def refresh_token_revoke_def)
next
  assume jti: "map_of jwt ''jti'' = Some jti"
  show "manager_calls (snd (access_token_revoke am jwt w)) = manager_calls w @ [RevokeTokenCall jti]"
    by (simp add: access_token_revoke_with_jti [OF jti] authentication_manager_revoke_token_calls)
  show "manager_calls (snd (refresh_token_revoke am jwt w)) = manager_calls w @ [RevokeTokenCall jti]"
    by (simp add: refresh_token_revoke_with_jti [OF jti] authentication_manager_revoke_token_calls)
next
  assume returned: "map_of jwt ''jti'' = Some jti \<and> fst (am_revoke_token am jti (manager_state w)) = Inr v"
  then show "fst (access_token_revoke am jwt w)
      = Inr (RBody (JObj [(''message'', JStr ''Access token has been revoked'')]))"
    by (simp add: access_token_revoke_with_jti)
  from returned show r: "fst (refresh_token_revoke am jwt w)
      = Inr (RBody (JObj [(''message'', JStr ''Access token has been revoked'')]))"
    by (simp add: refresh_token_revoke_with_jti)
  show "fst (refresh_token_revoke am jwt w)
      \<noteq> Inr (RBody (JObj [(''message'', JStr ''Refresh token has been revoked'')]))"
    unfolding r by simp
qed

theorem revoke_views_identical_witness:
  "access_token_revoke demo_manager [(''jti'', JStr ''7c1e''), (''sub'', JNum 3)]
       \<lparr>manager_calls = [], manager_state = [JStr ''0f3a'']\<rparr>
     = (Inr (RBody (JObj [(''message'', JStr ''Access token has been revoked'')])),
        \<lparr>manager_calls = [RevokeTokenCall (JStr ''7c1e'')],
         manager_state = [JStr ''7c1e'', JStr ''0f3a'']\<rparr>)
   \<and> refresh_token_revoke demo_manager [(''jti'', JStr ''7c1e''), (''sub'', JNum 3)]
       \<lparr>manager_calls = [], manager_state = [JStr ''0f3a'']\<rparr>
     = (Inr (RBody (JObj [(''message'', JStr ''Access token has been revoked'')])),
        \<lparr>manager_calls = [RevokeTokenCall (JStr ''7c1e'')],
         manager_state = [JStr ''7c1e'', JStr ''0f3a'']\<rparr>)"
proof -
  let ?w = "\<lparr>manager_calls = [], manager_state = [JStr ''0f3a'']\<rparr>"
  let ?jwt = "[(''jti'', JStr ''7c1e''), (''sub'', JNum 3)]"
  have a: "access_token_revoke demo_manager ?jwt ?w
     = (Inr (RBody (JObj [(''message'', JStr ''Access token has been revoked'')])),
        \<lparr>manager_calls = [RevokeTokenCall (JStr ''7c1e'')],
         manager_state = [JStr ''7c1e'', JStr ''0f3a'']\<rparr>)"
    by (simp add: access_token_revoke_def dict_getitem_def
        authentication_manager_revoke_token_def demo_manager_def)
  have "access_token_revoke demo_manager ?jwt ?w = refresh_token_revoke demo_manager ?jwt ?w"
    using revoke_views_identical [of demo_manager ?jwt ?w "JStr ''7c1e''" JNull] by blast
  with a show ?thesis by simp
qed

text \<open>
  Claim C8. The views for \<open>POST /reset_password_request\<close> and
  \<open>POST /reset_password/<token>\<close> are stubs: whatever the request and the token,
  each leaves the state as it was and returns \<open>None\<close>.
\<close>

theorem reset_password_views_are_stubs:
  "reset_password_request json_data w = (Inr RNone, w)
   \<and> reset_password token json_data w = (Inr RNone, w)"
  by (simp add: reset_password_request_def reset_password_def)

theorem reset_password_views_are_stubs_witness:
  "reset_password_request (JObj [(''email'', JStr ''client@endo.com'')])
       \<lparr>manager_calls = [], manager_state = [JStr ''0f3a'']\<rparr>
     = (Inr RNone, \<lparr>manager_calls = [], manager_state = [JStr ''0f3a'']\<rparr>)
   \<and> reset_password ''abc.def'' (JObj [(''email'', JStr ''client@endo.com'')])
       \<lparr>manager_calls = [], manager_state = [JStr ''0f3a'']\<rparr>
     = (Inr RNone, \<lparr>manager_calls = [], manager_state = [JStr ''0f3a'']\<rparr>)"
  using reset_password_views_are_stubs
    [of "JObj [(''email'', JStr ''client@endo.com'')]"
        "\<lparr>manager_calls = [], manager_state = [JStr ''0f3a'']\<rparr>" "''abc.def''"]
  by simp

section \<open>Properties of the seeding fixtures\<close>

lemma get_random_date_tables:
  "rotation_table (snd (get_random_date today w)) = rotation_table w"
  "operating_time_table (snd (get_random_date today w)) = operating_time_table w"
  "customer_machine_table (snd (get_random_date today w)) = customer_machine_table w"
  "py_random (snd (get_random_date today w)) = py_random w"
  by (simp_all add: get_random_date_def randint_def next_random_def)

lemma get_random_date_fst:
  "fst (get_random_date today w) = drawn_date today w 0"
  by (simp add: get_random_date_def randint_def next_random_def drawn_date_def)

lemma get_random_date_drawn_date:
  "drawn_date today (snd (get_random_date today w)) j = drawn_date today w (Suc j)"
  by (simp add: get_random_date_def randint_def next_random_def drawn_date_def)

lemma drawn_date_in_range: "drawn_date today w j \<le> today"
  by (simp add: drawn_date_def less_Suc_eq_le [symmetric] del: less_Suc_eq_le)

lemma RotationService_is_exists_cong:
  "rotation_table w' = rotation_table w \<Longrightarrow>
     RotationService_is_exists d machine w' = RotationService_is_exists d machine w"
  by (simp add: RotationService_is_exists_def)

lemma OperatingTimeService_is_exists_cong:
  "operating_time_table w' = operating_time_table w \<Longrightarrow>
     OperatingTimeService_is_exists d machine w' = OperatingTimeService_is_exists d machine w"
  by (simp add: OperatingTimeService_is_exists_def)

lemma get_rotation_date_tables:
  "rotation_table (snd (get_rotation_date today depth machine w)) = rotation_table w
   \<and> operating_time_table (snd (get_rotation_date today depth machine w)) = operating_time_table w
   \<and> customer_machine_table (snd (get_rotation_date today depth machine w)) = customer_machine_table w
   \<and> py_random (snd (get_rotation_date today depth machine w)) = py_random w"
proof (induction depth arbitrary: w)
  case 0
  show ?case by simp
next
  case (Suc depth)
  show ?case
    using Suc.IH [of "snd (get_random_date today w)"]
    by (simp add: split_beta get_random_date_tables)
qed

lemma get_rotation_date_free:
  "fst (get_rotation_date today depth machine w) = Inr d \<Longrightarrow>
     \<not> RotationService_is_exists d machine w"
proof (induction depth arbitrary: w)
  case 0
  then show ?case by simp
next
  case (Suc depth)
  obtain d0 w' where draw: "get_random_date today w = (d0, w')"
    by (cases "get_random_date today w")
  then have w': "w' = snd (get_random_date today w)" by simp
  have same: "RotationService_is_exists x machine w' = RotationService_is_exists x machine w" for x
    by (rule RotationService_is_exists_cong) (simp add: w' get_random_date_tables)
  show ?case
  proof (cases "RotationService_is_exists d0 machine w'")
    case True
    with Suc.prems draw have "fst (get_rotation_date today depth machine w') = Inr d" by simp
    then have "\<not> RotationService_is_exists d machine w'" by (rule Suc.IH)
    then show ?thesis by (simp add: same)
  next
    case False
    with Suc.prems draw have "d = d0" by simp
    with False show ?thesis by (simp add: same)
  qed
qed

lemma get_rotation_date_first_free:
  "k < depth \<Longrightarrow>
   (\<forall>j<k. RotationService_is_exists (drawn_date today w j) machine w) \<Longrightarrow>
   \<not> RotationService_is_exists (drawn_date today w k) machine w \<Longrightarrow>
     fst (get_rotation_date today depth machine w) = Inr (drawn_date today w k)"
proof (induction depth arbitrary: w k)
  case 0
  then show ?case by simp
next
  case (Suc depth)
  obtain d0 w' where draw: "get_random_date today w = (d0, w')"
    by (cases "get_random_date today w")
  then have w': "w' = snd (get_random_date today w)" and d0: "d0 = drawn_date today w 0"
    using get_random_date_fst [of today w] by simp_all
  have same: "RotationService_is_exists x machine w' = RotationService_is_exists x machine w" for x
    by (rule RotationService_is_exists_cong) (simp add: w' get_random_date_tables)
  have shift: "drawn_date today w' j = drawn_date today w (Suc j)" for j
    by (simp add: w' get_random_date_drawn_date)
  show ?case
  proof (cases k)
    case 0
    with Suc.prems draw show ?thesis by (simp add: same d0)
  next
    case (Suc k')
    with Suc.prems have occupied: "RotationService_is_exists d0 machine w'"
      by (simp add: same d0)
    have "fst (get_rotation_date today depth machine w') = Inr (drawn_date today w' k')"
    proof (rule Suc.IH)
      show "k' < depth" using Suc Suc.prems by simp
      show "\<forall>j<k'. RotationService_is_exists (drawn_date today w' j) machine w'"
        using Suc Suc.prems by (simp add: same shift)
      show "\<not> RotationService_is_exists (drawn_date today w' k') machine w'"
        using Suc Suc.prems by (simp add: same shift)
    qed
    with occupied draw Suc show ?thesis by (simp add: shift)
  qed
qed

lemma get_rotation_date_exhausted:
  "(\<forall>j<depth. RotationService_is_exists (drawn_date today w j) machine w) \<Longrightarrow>
     fst (get_rotation_date today depth machine w) = Inl RecursionError"
proof (induction depth arbitrary: w)
  case 0
  show ?case by simp
next
  case (Suc depth)
  obtain d0 w' where draw: "get_random_date today w = (d0, w')"
    by (cases "get_random_date today w")
  then have w': "w' = snd (get_random_date today w)" and d0: "d0 = drawn_date today w 0"
    using get_random_date_fst [of today w] by simp_all
  have same: "RotationService_is_exists x machine w' = RotationService_is_exists x machine w" for x
    by (rule RotationService_is_exists_cong) (simp add: w' get_random_date_tables)
  have shift: "drawn_date today w' j = drawn_date today w (Suc j)" for j
    by (simp add: w' get_random_date_drawn_date)
  from Suc.prems have occupied: "RotationService_is_exists d0 machine w'"
    by (simp add: same d0)
  have "fst (get_rotation_date today depth machine w') = Inl RecursionError"
  proof (rule Suc.IH)
    show "\<forall>j<depth. RotationService_is_exists (drawn_date today w' j) machine w'"
      using Suc.prems by (simp add: same shift)
  qed
  with occupied draw show ?case by simp
qed

lemma get_operating_time_date_tables:
  "rotation_table (snd (get_operating_time_date today depth machine w)) = rotation_table w
   \<and> operating_time_table (snd (get_operating_time_date today depth machine w)) = operating_time_table w
   \<and> customer_machine_table (snd (get_operating_time_date today depth machine w)) = customer_machine_table w
   \<and> py_random (snd (get_operating_time_date today depth machine w)) = py_random w"
proof (induction depth arbitrary: w)
  case 0
  show ?case by simp
next
  case (Suc depth)
  show ?case
    using Suc.IH [of "snd (get_random_date today w)"]
    by (simp add: split_beta get_random_date_tables)
qed

lemma get_operating_time_date_free:
  "fst (get_operating_time_date today depth machine w) = Inr d \<Longrightarrow>
     \<not> OperatingTimeService_is_exists d machine w"
proof (induction depth arbitrary: w)
  case 0
  then show ?case by simp
next
  case (Suc depth)
  obtain d0 w' where draw: "get_random_date today w = (d0, w')"
    by (cases "get_random_date today w")
  then have w': "w' = snd (get_random_date today w)" by simp
  have same: "OperatingTimeService_is_exists x machine w' = OperatingTimeService_is_exists x machine w" for x
    by (rule OperatingTimeService_is_exists_cong) (simp add: w' get_random_date_tables)
  show ?case
  proof (cases "OperatingTimeService_is_exists d0 machine w'")
    case True
    with Suc.prems draw have "fst (get_operating_time_date today depth machine w') = Inr d" by simp
    then have "\<not> OperatingTimeService_is_exists d machine w'" by (rule Suc.IH)
    then show ?thesis by (simp add: same)
  next
    case False
    with Suc.prems draw have "d = d0" by simp
    with False show ?thesis by (simp add: same)
  qed
qed

lemma get_operating_time_date_first_free:
  "k < depth \<Longrightarrow>
   (\<forall>j<k. OperatingTimeService_is_exists (drawn_date today w j) machine w) \<Longrightarrow>
   \<not> OperatingTimeService_is_exists (drawn_date today w k) machine w \<Longrightarrow>
     fst (get_operating_time_date today depth machine w) = Inr (drawn_date today w k)"
proof (induction depth arbitrary: w k)
  case 0
  then show ?case by simp
next
  case (Suc depth)
  obtain d0 w' where draw: "get_random_date today w = (d0, w')"
    by (cases "get_random_date today w")
  then have w': "w' = snd (get_random_date today w)" and d0: "d0 = drawn_date today w 0"
    using get_random_date_fst [of today w] by simp_all
  have same: "OperatingTimeService_is_exists x machine w' = OperatingTimeService_is_exists x machine w" for x
    by (rule OperatingTimeService_is_exists_cong) (simp add: w' get_random_date_tables)
  have shift: "drawn_date today w' j = drawn_date today w (Suc j)" for j
    by (simp add: w' get_random_date_drawn_date)
  show ?case
  proof (cases k)
    case 0
    with Suc.prems draw show ?thesis by (simp add: same d0)
  next
    case (Suc k')
    with Suc.prems have occupied: "OperatingTimeService_is_exists d0 machine w'"
      by (simp add: same d0)
    have "fst (get_operating_time_date today depth machine w') = Inr (drawn_date today w' k')"
    proof (rule Suc.IH)
      show "k' < depth" using Suc Suc.prems by simp
      show "\<forall>j<k'. OperatingTimeService_is_exists (drawn_date today w' j) machine w'"
        using Suc Suc.prems by (simp add: same shift)
      show "\<not> OperatingTimeService_is_exists (drawn_date today w' k') machine w'"
        using Suc Suc.prems by (simp add: same shift)
    qed
    with occupied draw Suc show ?thesis by (simp add: shift)
  qed
qed

lemma get_operating_time_date_exhausted:
  "(\<forall>j<depth. OperatingTimeService_is_exists (drawn_date today w j) machine w) \<Longrightarrow>
     fst (get_operating_time_date today depth machine w) = Inl RecursionError"
proof (induction depth arbitrary: w)
  case 0
  show ?case by simp
next
  case (Suc depth)
  obtain d0 w' where draw: "get_random_date today w = (d0, w')"
    by (cases "get_random_date today w")
  then have w': "w' = snd (get_random_date today w)" and d0: "d0 = drawn_date today w 0"
    using get_random_date_fst [of today w] by simp_all
  have same: "OperatingTimeService_is_exists x machine w' = OperatingTimeService_is_exists x machine w" for x
    by (rule OperatingTimeService_is_exists_cong) (simp add: w' get_random_date_tables)
  have shift: "drawn_date today w' j = drawn_date today w (Suc j)" for j
    by (simp add: w' get_random_date_drawn_date)
  from Suc.prems have occupied: "OperatingTimeService_is_exists d0 machine w'"
    by (simp add: same d0)
  have "fst (get_operating_time_date today depth machine w') = Inl RecursionError"
  proof (rule Suc.IH)
    show "\<forall>j<depth. OperatingTimeService_is_exists (drawn_date today w' j) machine w'"
      using Suc.prems by (simp add: same shift)
  qed
  with occupied draw show ?case by simp
qed


lemma get_operating_time_date_numeral:
  "get_operating_time_date today (numeral v) machine w =
     (case get_random_date today w of
        (d, w') \<Rightarrow>
          (if OperatingTimeService_is_exists d machine w'
           then get_operating_time_date today (pred_numeral v) machine w'
           else (Inr d, w')))"
  by (simp add: numeral_eq_Suc)

lemma range_10: "[0..<10] = [0, 1, 2, 3, 4, 5, 6, 7, 8, 9]"
  by code_simp

lemma for_each_invariant:
  assumes step: "\<And>x s. P s \<Longrightarrow> P (snd (body x s))"
    and init: "P s"
  shows "P (snd (for_each body xs s))"
  using init
proof (induction xs arbitrary: s)
  case Nil
  then show ?case by simp
next
  case (Cons x xs)
  obtain r s' where b: "body x s = (r, s')"
    by (cases "body x s")
  from Cons.prems have "P (snd (body x s))" by (rule step)
  with b have s': "P s'" by simp
  show ?case
  proof (cases r)
    case None
    with b Cons.IH [OF s'] show ?thesis by simp
  next
    case (Some e)
    with b s' show ?thesis by simp
  qed
qed

lemma fresh_extension_step:
  assumes "\<exists>seeded. cur = old @ seeded \<and> distinct (map key seeded)
             \<and> key ` set seeded \<inter> key ` set old = {}"
    and "cur' = cur \<or> (\<exists>r. cur' = cur @ [r] \<and> key r \<notin> key ` set cur)"
  shows "\<exists>seeded. cur' = old @ seeded \<and> distinct (map key seeded)
             \<and> key ` set seeded \<inter> key ` set old = {}"
proof -
  from assms(1) obtain seeded where s: "cur = old @ seeded" "distinct (map key seeded)"
      "key ` set seeded \<inter> key ` set old = {}"
    by blast
  from assms(2) show ?thesis
  proof
    assume "cur' = cur"
    with s show ?thesis by blast
  next
    assume "\<exists>r. cur' = cur @ [r] \<and> key r \<notin> key ` set cur"
    then obtain r where r: "cur' = cur @ [r]" "key r \<notin> key ` set cur"
      by blast
    with s have "cur' = old @ (seeded @ [r])" "distinct (map key (seeded @ [r]))"
        "key ` set (seeded @ [r]) \<inter> key ` set old = {}"
      by auto
    then show ?thesis by blast
  qed
qed

lemma seed_rotation_step:
  "rotation_table (snd (seed_rotation today depth machine w)) = rotation_table w
   \<or> (\<exists>r. rotation_table (snd (seed_rotation today depth machine w)) = rotation_table w @ [r]
          \<and> rotation_key r \<notin> rotation_key ` set (rotation_table w))"
proof (cases "get_rotation_date today depth (machine_id machine) w")
  case (Pair res w')
  have tbl: "rotation_table w' = rotation_table w"
    using get_rotation_date_tables [of today depth "machine_id machine" w] Pair by simp
  show ?thesis
  proof (cases res)
    case (Inl e)
    with Pair tbl show ?thesis by (simp add: seed_rotation_def)
  next
    case (Inr d)
    with Pair have "fst (get_rotation_date today depth (machine_id machine) w) = Inr d"
      by simp
    then have "\<not> RotationService_is_exists d (machine_id machine) w"
      by (rule get_rotation_date_free)
    then have fresh: "(d, machine_id machine) \<notin> rotation_key ` set (rotation_table w)"
      by (auto simp: RotationService_is_exists_def rotation_key_def)
    from Pair Inr tbl fresh show ?thesis
      by (simp add: seed_rotation_def RotationService_create_def rotation_key_def
          split: prod.splits)
  qed
qed

lemma seed_operating_time_step:
  "operating_time_table (snd (seed_operating_time today depth machine w)) = operating_time_table w
   \<or> (\<exists>r. operating_time_table (snd (seed_operating_time today depth machine w))
            = operating_time_table w @ [r]
          \<and> operating_time_key r \<notin> operating_time_key ` set (operating_time_table w))"
proof (cases "get_operating_time_date today depth (machine_id machine) w")
  case (Pair res w')
  have tbl: "operating_time_table w' = operating_time_table w"
    using get_operating_time_date_tables [of today depth "machine_id machine" w] Pair by simp
  show ?thesis
  proof (cases res)
    case (Inl e)
    with Pair tbl show ?thesis by (simp add: seed_operating_time_def)
  next
    case (Inr d)
    with Pair have "fst (get_operating_time_date today depth (machine_id machine) w) = Inr d"
      by simp
    then have "\<not> OperatingTimeService_is_exists d (machine_id machine) w"
      by (rule get_operating_time_date_free)
    then have fresh: "(d, machine_id machine) \<notin> operating_time_key ` set (operating_time_table w)"
      by (auto simp: OperatingTimeService_is_exists_def operating_time_key_def)
    from Pair Inr tbl fresh show ?thesis
      by (simp add: seed_operating_time_def OperatingTimeService_create_def operating_time_key_def
          split: prod.splits)
  qed
qed

lemma rotations_seed_fresh:
  "\<exists>seeded. rotation_table (snd (rotations today depth customers w)) = rotation_table w @ seeded
      \<and> distinct (map rotation_key seeded)
      \<and> rotation_key ` set seeded \<inter> rotation_key ` set (rotation_table w) = {}"
proof -
  let ?P = "\<lambda>s. \<exists>seeded. rotation_table s = rotation_table w @ seeded
      \<and> distinct (map rotation_key seeded)
      \<and> rotation_key ` set seeded \<inter> rotation_key ` set (rotation_table w) = {}"
  have seed: "?P (snd (seed_rotation today depth machine s))" if "?P s" for machine s
    using that seed_rotation_step [of today depth machine s] by (rule fresh_extension_step)
  have init: "?P w" by simp
  show ?thesis
    unfolding rotations_def
    by (intro for_each_invariant [where P = ?P] seed init)
qed

lemma operating_times_seed_fresh:
  "\<exists>seeded. operating_time_table (snd (operating_times today depth customers w))
        = operating_time_table w @ seeded
      \<and> distinct (map operating_time_key seeded)
      \<and> operating_time_key ` set seeded \<inter> operating_time_key ` set (operating_time_table w) = {}"
proof -
  let ?P = "\<lambda>s. \<exists>seeded. operating_time_table s = operating_time_table w @ seeded
      \<and> distinct (map operating_time_key seeded)
      \<and> operating_time_key ` set seeded \<inter> operating_time_key ` set (operating_time_table w) = {}"
  have seed: "?P (snd (seed_operating_time today depth machine s))" if "?P s" for machine s
    using that seed_operating_time_step [of today depth machine s] by (rule fresh_extension_step)
  have init: "?P w" by simp
  show ?thesis
    unfolding operating_times_def
    by (intro for_each_invariant [where P = ?P] seed init)
qed


text \<open>
  Claim C4. The date that \<open>_get_rotation_date\<close> or \<open>_get_operating_time_date\<close>
  returns for a machine is one for which the service's \<open>is_exists\<close> is false in
  the state the helper returns in. So the records the fixtures \<open>rotations\<close> and
  \<open>operating_times\<close> add to a table have (date, machine) pairs that differ from one
  another and from every pair the table held before.
\<close>

theorem fixture_dates_are_free:
  "(fst (get_rotation_date today depth machine w) = Inr d \<longrightarrow>
      \<not> RotationService_is_exists d machine (snd (get_rotation_date today depth machine w)))
   \<and> (fst (get_operating_time_date today depth machine w) = Inr d \<longrightarrow>
      \<not> OperatingTimeService_is_exists d machine (snd (get_operating_time_date today depth machine w)))
   \<and> (\<exists>seeded. rotation_table (snd (rotations today depth customers w)) = rotation_table w @ seeded
        \<and> distinct (map rotation_key seeded)
        \<and> rotation_key ` set seeded \<inter> rotation_key ` set (rotation_table w) = {})
   \<and> (\<exists>seeded. operating_time_table (snd (operating_times today depth customers w))
          = operating_time_table w @ seeded
        \<and> distinct (map operating_time_key seeded)
        \<and> operating_time_key ` set seeded \<inter> operating_time_key ` set (operating_time_table w) = {})"
proof (intro conjI impI)
  assume "fst (get_rotation_date today depth machine w) = Inr d"
  then have "\<not> RotationService_is_exists d machine w"
    by (rule get_rotation_date_free)
  moreover have "RotationService_is_exists d machine (snd (get_rotation_date today depth machine w))
      = RotationService_is_exists d machine w"
    by (rule RotationService_is_exists_cong) (simp add: get_rotation_date_tables)
  ultimately show "\<not> RotationService_is_exists d machine (snd (get_rotation_date today depth machine w))"
    by simp
next
  assume "fst (get_operating_time_date today depth machine w) = Inr d"
  then have "\<not> OperatingTimeService_is_exists d machine w"
    by (rule get_operating_time_date_free)
  moreover have "OperatingTimeService_is_exists d machine (snd (get_operating_time_date today depth machine w))
      = OperatingTimeService_is_exists d machine w"
    by (rule OperatingTimeService_is_exists_cong) (simp add: get_operating_time_date_tables)
  ultimately show "\<not> OperatingTimeService_is_exists d machine
      (snd (get_operating_time_date today depth machine w))"
    by simp
next
  show "\<exists>seeded. rotation_table (snd (rotations today depth customers w)) = rotation_table w @ seeded
        \<and> distinct (map rotation_key seeded)
        \<and> rotation_key ` set seeded \<inter> rotation_key ` set (rotation_table w) = {}"
    by (rule rotations_seed_fresh)
next
  show "\<exists>seeded. operating_time_table (snd (operating_times today depth customers w))
          = operating_time_table w @ seeded
        \<and> distinct (map operating_time_key seeded)
        \<and> operating_time_key ` set seeded \<inter> operating_time_key ` set (operating_time_table w) = {}"
    by (rule operating_times_seed_fresh)
qed

theorem fixture_dates_are_free_witness:
  "fst (get_rotation_date 40 1000 7 demo_world) = Inr 3
   \<and> \<not> RotationService_is_exists 3 7 (snd (get_rotation_date 40 1000 7 demo_world))
   \<and> fst (get_operating_time_date 40 1000 7 demo_world) = Inr 0
   \<and> \<not> OperatingTimeService_is_exists 0 7 (snd (get_operating_time_date 40 1000 7 demo_world))
   \<and> fst (rotations 40 1000 [2] demo_world) = None
   \<and> map rotation_key (rotation_table (snd (rotations 40 1000 [2] demo_world)))
       = [(0, 7), (3, 7), (6, 7), (9, 7), (12, 7), (15, 7), (18, 7), (21, 7), (24, 7), (27, 7),
          (30, 7)]
   \<and> fst (operating_times 40 1000 [2] demo_world) = None
   \<and> map operating_time_key (operating_time_table (snd (operating_times 40 1000 [2] demo_world)))
       = [(0, 7), (3, 7), (6, 7), (9, 7), (12, 7), (15, 7), (18, 7), (21, 7), (24, 7), (27, 7)]"
proof -
  have r: "fst (get_rotation_date 40 1000 7 demo_world) = Inr 3"
    by code_simp
  have t: "fst (get_operating_time_date 40 1000 7 demo_world) = Inr 0"
    by code_simp
  note free = fixture_dates_are_free [of 40 1000 7 demo_world]
  from free [of 3] r
  have rf: "\<not> RotationService_is_exists 3 7 (snd (get_rotation_date 40 1000 7 demo_world))"
    by blast
  from free [of 0] t
  have tf: "\<not> OperatingTimeService_is_exists 0 7 (snd (get_operating_time_date 40 1000 7 demo_world))"
    by blast
  have rs: "fst (rotations 40 1000 [2] demo_world) = None"
    by code_simp
  have rk: "map rotation_key (rotation_table (snd (rotations 40 1000 [2] demo_world)))
       = [(0, 7), (3, 7), (6, 7), (9, 7), (12, 7), (15, 7), (18, 7), (21, 7), (24, 7), (27, 7),
          (30, 7)]"
    by code_simp
  have ts: "fst (operating_times 40 1000 [2] demo_world) = None"
    by (simp add: operating_times_def seed_operating_time_def get_operating_time_date_numeral
        get_random_date_def randint_def randrange_def next_random_def range_10
        OperatingTimeService_is_exists_def OperatingTimeService_create_def demo_world_def)
  have tk: "map operating_time_key (operating_time_table (snd (operating_times 40 1000 [2] demo_world)))
       = [(0, 7), (3, 7), (6, 7), (9, 7), (12, 7), (15, 7), (18, 7), (21, 7), (24, 7), (27, 7)]"
    by (simp add: operating_times_def seed_operating_time_def get_operating_time_date_numeral
        get_random_date_def randint_def randrange_def next_random_def range_10
        OperatingTimeService_is_exists_def OperatingTimeService_create_def
        operating_time_key_def demo_world_def)
  from r rf t tf rs rk ts tk show ?thesis by blast
qed

text \<open>
  Claim C5, as amended. Each helper returns a date when one of the dates the random
  source yields within the recursion depth left has no record for the machine: it
  returns the first such date, a day between 1 January and today. When every date
  yielded within that depth has a record, the helper returns no date: the recursion
  ends in \<open>RecursionError\<close>.
\<close>

theorem helpers_return_first_free_draw:
  "(k < depth
      \<and> (\<forall>j<k. RotationService_is_exists (drawn_date today w j) machine w)
      \<and> \<not> RotationService_is_exists (drawn_date today w k) machine w \<longrightarrow>
      fst (get_rotation_date today depth machine w) = Inr (drawn_date today w k)
      \<and> drawn_date today w k \<le> today)
   \<and> (k < depth
      \<and> (\<forall>j<k. OperatingTimeService_is_exists (drawn_date today w j) machine w)
      \<and> \<not> OperatingTimeService_is_exists (drawn_date today w k) machine w \<longrightarrow>
      fst (get_operating_time_date today depth machine w) = Inr (drawn_date today w k)
      \<and> drawn_date today w k \<le> today)
   \<and> ((\<forall>j<depth. RotationService_is_exists (drawn_date today w j) machine w) \<longrightarrow>
      fst (get_rotation_date today depth machine w) = Inl RecursionError)
   \<and> ((\<forall>j<depth. OperatingTimeService_is_exists (drawn_date today w j) machine w) \<longrightarrow>
      fst (get_operating_time_date today depth machine w) = Inl RecursionError)"
proof (intro conjI impI)
  assume "k < depth
      \<and> (\<forall>j<k. RotationService_is_exists (drawn_date today w j) machine w)
      \<and> \<not> RotationService_is_exists (drawn_date today w k) machine w"
  then show "fst (get_rotation_date today depth machine w) = Inr (drawn_date today w k)"
    by (simp add: get_rotation_date_first_free)
next
  assume "k < depth
      \<and> (\<forall>j<k. OperatingTimeService_is_exists (drawn_date today w j) machine w)
      \<and> \<not> OperatingTimeService_is_exists (drawn_date today w k) machine w"
  then show "fst (get_operating_time_date today depth machine w) = Inr (drawn_date today w k)"
    by (simp add: get_operating_time_date_first_free)
next
  assume "\<forall>j<depth. RotationService_is_exists (drawn_date today w j) machine w"
  then show "fst (get_rotation_date today depth machine w) = Inl RecursionError"
    by (rule get_rotation_date_exhausted)
next
  assume "\<forall>j<depth. OperatingTimeService_is_exists (drawn_date today w j) machine w"
  then show "fst (get_operating_time_date today depth machine w) = Inl RecursionError"
    by (rule get_operating_time_date_exhausted)
qed (rule drawn_date_in_range)+

theorem helpers_return_first_free_draw_witness:
  "fst (get_rotation_date 40 1000 7 demo_world) = Inr 3
   \<and> fst (get_operating_time_date 40 1000 7 demo_world) = Inr 0
   \<and> fst (get_rotation_date 40 0 7 demo_world) = Inl RecursionError
   \<and> fst (get_operating_time_date 1 1000 7 stuck_world) = Inl RecursionError"
proof -
  have d0: "drawn_date 40 demo_world 0 = 0" and d1: "drawn_date 40 demo_world 1 = 3"
    by (simp_all add: drawn_date_def demo_world_def)
  have taken: "RotationService_is_exists 0 7 demo_world"
    and free: "\<not> RotationService_is_exists 3 7 demo_world"
    and empty: "\<not> OperatingTimeService_is_exists 0 7 demo_world"
    by (simp_all add: RotationService_is_exists_def OperatingTimeService_is_exists_def
        demo_world_def)
  have stuck: "\<forall>j<1000. OperatingTimeService_is_exists (drawn_date 1 stuck_world j) 7 stuck_world"
    by (simp add: OperatingTimeService_is_exists_def drawn_date_def stuck_world_def)
  have a: "fst (get_rotation_date 40 1000 7 demo_world) = Inr 3"
    using helpers_return_first_free_draw [of 1 1000 40 demo_world 7] d0 d1 taken free
    by simp
  have b: "fst (get_operating_time_date 40 1000 7 demo_world) = Inr 0"
    using helpers_return_first_free_draw [of 0 1000 40 demo_world 7] d0 empty
    by simp
  have c: "fst (get_rotation_date 40 0 7 demo_world) = Inl RecursionError"
    using helpers_return_first_free_draw [of 0 0 40 demo_world 7]
    by simp
  have d: "fst (get_operating_time_date 1 1000 7 stuck_world) = Inl RecursionError"
    using helpers_return_first_free_draw [of 0 1000 1 stuck_world 7] stuck
    by blast
  from a b c d show ?thesis by blast
qed

text \<open>
  Claim C5 as first stated fails: in \<open>stuck_world\<close> 2 January is within the range
  and free for machine 7 in both tables, and yet neither helper returns a date.
\<close>

theorem helpers_free_date_counterexample:
  "(1 :: nat) \<in> {0..1}
   \<and> \<not> RotationService_is_exists 1 7 stuck_world
   \<and> \<not> OperatingTimeService_is_exists 1 7 stuck_world
   \<and> fst (get_rotation_date 1 1000 7 stuck_world) = Inl RecursionError
   \<and> fst (get_operating_time_date 1 1000 7 stuck_world) = Inl RecursionError"
proof -
  have free: "\<not> RotationService_is_exists 1 7 stuck_world"
      "\<not> OperatingTimeService_is_exists 1 7 stuck_world"
    by (simp_all add: RotationService_is_exists_def OperatingTimeService_is_exists_def
        stuck_world_def)
  have "\<forall>j<1000. RotationService_is_exists (drawn_date 1 stuck_world j) 7 stuck_world"
    by (simp add: RotationService_is_exists_def drawn_date_def stuck_world_def)
  then have r: "fst (get_rotation_date 1 1000 7 stuck_world) = Inl RecursionError"
    by (rule get_rotation_date_exhausted)
  have "\<forall>j<1000. OperatingTimeService_is_exists (drawn_date 1 stuck_world j) 7 stuck_world"
    by (simp add: OperatingTimeService_is_exists_def drawn_date_def stuck_world_def)
  then have t: "fst (get_operating_time_date 1 1000 7 stuck_world) = Inl RecursionError"
    by (rule get_operating_time_date_exhausted)
  from free r t show ?thesis by simp
qed

section \<open>Properties of update\<close>

































end
